theory Spec2Isabelle
  imports Main
begin

section \<open>Data model\<close>

text \<open>
  Instants are JavaScript \<open>Date\<close> values, modelled by their \<open>getTime()\<close>: an \<open>int\<close> of
  milliseconds since the Unix epoch. An ISO-8601 string made by \<open>toISOString()\<close> names
  the same millisecond, so the serialised dates of the API response are kept as the same
  \<open>int\<close>; two such strings are equal exactly when the instants are. All instants are
  taken to lie in the range where \<open>Date\<close> is valid and \<open>Number\<close> arithmetic is exact.
  Block numbers and the registration's decimal strings (\<open>BigInt(s)\<close>, \<open>Number(s)\<close>,
  \<open>parseInt(s)\<close>) are modelled by the integer they denote.
\<close>

text \<open>A transfer of the subgraph: \<open>{ domain { name }, blockNumber, transactionID, owner { id } }\<close>.\<close>

record transfer =
  domain_name :: "string option"
  block_number :: int
  transactionID :: string
  owner_id :: string

text \<open>A registration: \<open>{ registrationDate, expiryDate, registrant { id } }\<close>, dates in seconds.\<close>

record registration =
  registrationDate :: int
  expiryDate :: int
  registrant :: string

text \<open>An element of the array \<open>owners\<close> of the history route.\<close>

record owner =
  address :: string
  startDate :: int
  endDate :: "int option"
  transactionHash :: string
  blockNumber :: int
  isMarketplace :: bool
  marketplaceName :: "string option"

text \<open>\<open>currentOwnerData\<close> of the history route.\<close>

record currentOwnerData =
  cur_address :: string
  cur_startDate :: int
  cur_endDate :: "int option"
  cur_transactionHash :: string
  avatar :: "string option"

text \<open>
  What the history route has after its queries: \<open>domain.owner.id\<close>, \<open>domain.createdAt\<close>
  (absent, or the seconds it parses to), \<open>data.registrations\<close> (an absent array is the
  empty list) and \<open>data.transfers\<close>, each transfer paired with its entry of \<open>blocks\<close>:
  the block's \<open>timestamp\<close> in seconds, or \<open>None\<close> where \<open>getBlock\<close> failed. Without an
  RPC endpoint the second components are not read.
\<close>

record domain_data =
  domain_owner :: string
  createdAt :: "int option"
  registrations :: "registration list"
  transfers :: "(transfer \<times> int option) list"

text \<open>The environment of one request: whether \<open>NEXT_PUBLIC_RPC_URL\<close> is set, and the clock.\<close>

record env =
  rpcUrl :: bool
  now :: int

datatype error = Unowned

record history =
  res_owners :: "owner list"
  res_currentOwner :: currentOwnerData
  res_expiryDate :: "int option"

text \<open>The outcome of the request to the avatar service.\<close>

datatype avatar_response =
    FetchThrows
  | NotOk
  | JsonThrows
  | Json "string option"

text \<open>\<open>ENSOwner\<close> and \<open>TimelinePeriod\<close> of the history component.\<close>

record ENSOwner =
  e_address :: string
  e_startDate :: int
  e_endDate :: "int option"
  e_transactionHash :: string
  e_isMarketplace :: bool
  e_marketplaceName :: "string option"

record TimelinePeriod =
  p_owner :: ENSOwner
  p_startDate :: int
  p_endDate :: "int option"
  isDormant :: bool
  p_isMarketplace :: bool
  p_marketplaceName :: "string option"
  duration :: int

section \<open>Strings and dates\<close>

text \<open>\<open>String.prototype.toLowerCase\<close> on the ASCII letters (addresses are hexadecimal).\<close>

definition lower_char :: "char \<Rightarrow> char" where
  "lower_char c =
     (case map_of (zip ''ABCDEFGHIJKLMNOPQRSTUVWXYZ'' ''abcdefghijklmnopqrstuvwxyz'') c of
        Some d \<Rightarrow> d
      | None \<Rightarrow> c)"

definition toLowerCase :: "string \<Rightarrow> string" where
  "toLowerCase s = map lower_char s"

text \<open>
  The calendar date of an instant, as \<open>getFullYear\<close>, \<open>getMonth\<close> and \<open>getDate\<close> give it,
  for a process whose time zone is UTC: days since the epoch to a proleptic Gregorian
  (year, month, day).
\<close>

definition civil :: "int \<Rightarrow> int \<times> int \<times> int" where
  "civil ms =
     (let z = ms div 86400000 + 719468;
          era = z div 146097;
          doe = z - era * 146097;
          yoe = (doe - doe div 1460 + doe div 36524 - doe div 146096) div 365;
          doy = doe - (365 * yoe + yoe div 4 - yoe div 100);
          mp = (5 * doy + 2) div 153;
          d = doy - (153 * mp + 2) div 5 + 1;
          m = (if mp < 10 then mp + 3 else mp - 9);
          y = yoe + era * 400
      in (if m \<le> 2 then y + 1 else y, m, d))"

definition getFullYear :: "int \<Rightarrow> int" where
  "getFullYear ms = fst (civil ms)"

definition getMonth :: "int \<Rightarrow> int" where
  "getMonth ms = fst (snd (civil ms)) - 1"

definition getDate :: "int \<Rightarrow> int" where
  "getDate ms = snd (snd (civil ms))"

text \<open>
  The check \<open>d.getFullYear() >= 2015 && d.getFullYear() <= new Date().getFullYear() + 1\<close>.
\<close>

definition reasonableYear :: "int \<Rightarrow> int \<Rightarrow> bool" where
  "reasonableYear nw d \<longleftrightarrow> getFullYear d \<ge> 2015 \<and> getFullYear d \<le> getFullYear nw + 1"

text \<open>\<open>new Date('2015-07-30T00:00:00Z').getTime()\<close>.\<close>

definition genesisDate :: int where
  "genesisDate = 1438214400000"

definition estimateTimestampFromBlock :: "int \<Rightarrow> int" where
  "estimateTimestampFromBlock blockNum = genesisDate + blockNum * 12 * 1000"

section \<open>Marketplace detection\<close>

definition MARKETPLACE_CONTRACTS :: "(string \<times> string) list" where
  "MARKETPLACE_CONTRACTS =
     [(''0x00000000006c3852cbef3e08e8df289169ede581'', ''OpenSea Seaport''),
      (''0x00000000006cee72100d161c57ada5bb2be1ca79'', ''OpenSea Seaport V1''),
      (''0x00000000006c7676171937c444f6bde3d6282'', ''OpenSea Seaport V3''),
      (''0x0000000000000ad24e80fd803c6ac37206a45f15'', ''OpenSea Seaport V4''),
      (''0x00000000000001ad428e4906ae43d8f9852d0dd6'', ''OpenSea Seaport V5''),
      (''0x00000000000000adc04c56bf30ac9d3c0aaf14dc'', ''OpenSea Seaport V6''),
      (''0x7be8076f4ea4a4ad08075c2508e481d6c946d12b'', ''OpenSea Wyvern''),
      (''0x7f268357a8c2552623316e2562d90e642bb538e5'', ''OpenSea Wyvern V2''),
      (''0x495f947276749ce646f68ac8c248420045cb7b5e'', ''OpenSea Shared Storefront'')]"

text \<open>
  \<open>isMarketplaceContract\<close>: the pair is \<open>(isMarketplace, name)\<close>. Owner ids are
  hexadecimal addresses, so the lookup \<open>MARKETPLACE_CONTRACTS[addrLower]\<close> never reaches a
  property inherited from \<open>Object.prototype\<close>; every label of the table is a non-empty
  string.
\<close>

definition isMarketplaceContract :: "string \<Rightarrow> bool \<times> string option" where
  "isMarketplaceContract addr =
     (let addrLower = toLowerCase addr
      in case map_of MARKETPLACE_CONTRACTS addrLower of
           Some name \<Rightarrow> (True, Some name)
         | None \<Rightarrow> (False, None))"

text \<open>
  The marketplace check of one transfer in the loop over \<open>data.transfers\<close>: the table
  first, then the rapid-intermediate-transfer heuristic on the neighbours
  \<open>data.transfers[i - 1]\<close> and \<open>data.transfers[i + 1]\<close> (absent at the ends of the list),
  which is tried only when the three block lookups succeeded.
\<close>

definition marketplaceCheck ::
  "(transfer \<times> int option) option \<Rightarrow> transfer \<times> int option \<Rightarrow>
   (transfer \<times> int option) option \<Rightarrow> bool \<times> string option" where
  "marketplaceCheck prev cur nxt =
     (let (transfer, block) = cur;
          (isMarketplace, marketplaceName) = isMarketplaceContract (owner_id transfer)
      in if \<not> isMarketplace then
           (case (prev, nxt) of
              (Some (prevTransfer, prevBlock), Some (nextTransfer, nextBlock)) \<Rightarrow>
                if prevBlock \<noteq> None \<and> nextBlock \<noteq> None \<and> block \<noteq> None then
                  (let blockDiff = block_number transfer - block_number prevTransfer;
                       nextBlockDiff = block_number nextTransfer - block_number transfer
                   in if blockDiff \<le> 10 \<and> nextBlockDiff \<le> 10 then
                        (let isIntermediate =
                               (toLowerCase (owner_id transfer) \<noteq> toLowerCase (owner_id prevTransfer) \<and>
                                toLowerCase (owner_id transfer) \<noteq> toLowerCase (owner_id nextTransfer))
                         in if isIntermediate then (True, Some ''Marketplace'')
                            else (isMarketplace, marketplaceName))
                      else (isMarketplace, marketplaceName))
                else (isMarketplace, marketplaceName)
            | _ \<Rightarrow> (isMarketplace, marketplaceName))
         else (isMarketplace, marketplaceName))"

section \<open>Building the periods from the transfers\<close>

text \<open>
  The instant of a transfer when an RPC endpoint is set: the block's timestamp, or the
  estimate from the block number where the lookup failed.
\<close>

definition transferTimestamp :: "transfer \<times> int option \<Rightarrow> int" where
  "transferTimestamp tb =
     (case snd tb of
        Some ts \<Rightarrow> ts * 1000
      | None \<Rightarrow> estimateTimestampFromBlock (block_number (fst tb)))"

text \<open>The neighbours \<open>data.transfers[i - 1]\<close> and \<open>data.transfers[i + 1]\<close>, when they exist.\<close>

definition prevOf :: "'a list \<Rightarrow> nat \<Rightarrow> 'a option" where
  "prevOf xs i = (if i > 0 then Some (xs ! (i - 1)) else None)"

definition nextOf :: "'a list \<Rightarrow> nat \<Rightarrow> 'a option" where
  "nextOf xs i = (if i + 1 < length xs then Some (xs ! (i + 1)) else None)"

text \<open>The duplicate test: same block and same owner as the transfer before, both blocks fetched.\<close>

definition duplicateEvent :: "(transfer \<times> int option) list \<Rightarrow> nat \<Rightarrow> bool" where
  "duplicateEvent ts i =
     (case prevOf ts i of
        None \<Rightarrow> False
      | Some (prevTransfer, prevBlock) \<Rightarrow>
          prevBlock \<noteq> None \<and> snd (ts ! i) \<noteq> None \<and>
          block_number prevTransfer = block_number (fst (ts ! i)) \<and>
          toLowerCase (owner_id prevTransfer) = toLowerCase (owner_id (fst (ts ! i))))"

text \<open>
  One iteration of the loop with block timestamps, for \<open>i < length ts\<close>: \<open>None\<close> is the
  \<open>continue\<close> of a duplicate, \<open>Some\<close> the element pushed.
\<close>

definition rpcOwner :: "(transfer \<times> int option) list \<Rightarrow> nat \<Rightarrow> owner option" where
  "rpcOwner ts i =
     (if duplicateEvent ts i then None
      else
        let (isMarketplace, marketplaceName) = marketplaceCheck (prevOf ts i) (ts ! i) (nextOf ts i)
        in Some \<lparr>address = owner_id (fst (ts ! i)),
                 startDate = transferTimestamp (ts ! i),
                 endDate = map_option transferTimestamp (nextOf ts i),
                 transactionHash = transactionID (fst (ts ! i)),
                 blockNumber = block_number (fst (ts ! i)),
                 isMarketplace = isMarketplace,
                 marketplaceName = marketplaceName\<rparr>)"

definition rpcOwners :: "(transfer \<times> int option) list \<Rightarrow> owner list" where
  "rpcOwners ts = List.map_filter (rpcOwner ts) [0..<length ts]"

text \<open>Without an RPC endpoint: the base date, then one period for every transfer.\<close>

definition parsedDate :: "int \<Rightarrow> int \<Rightarrow> int option" where
  "parsedDate nw seconds =
     (if seconds > 0 \<and> reasonableYear nw (seconds * 1000) then Some (seconds * 1000) else None)"

definition fallbackRegistrationDate :: "int \<Rightarrow> domain_data \<Rightarrow> int" where
  "fallbackRegistrationDate nw data =
     (let earliestBlock = (case transfers data of [] \<Rightarrow> 0 | tb # _ \<Rightarrow> block_number (fst tb));
          fromRegistration =
            (case registrations data of [] \<Rightarrow> None | r # _ \<Rightarrow> parsedDate nw (registrationDate r));
          fromCreatedAt =
            (case fromRegistration of
               Some d \<Rightarrow> Some d
             | None \<Rightarrow> (case createdAt data of None \<Rightarrow> None | Some c \<Rightarrow> parsedDate nw c))
      in case fromCreatedAt of
           Some d \<Rightarrow> d
         | None \<Rightarrow> genesisDate + earliestBlock * 12 * 1000)"

definition fallbackOwner :: "int \<Rightarrow> (transfer \<times> int option) list \<Rightarrow> nat \<Rightarrow> owner" where
  "fallbackOwner regDate ts i =
     (let transfer = fst (ts ! i);
          earliestBlock = block_number (fst (ts ! 0));
          blockDiff = block_number transfer - earliestBlock;
          estimatedDate = regDate + blockDiff * 12 * 1000
      in \<lparr>address = owner_id transfer,
          startDate = estimatedDate,
          endDate =
            (case nextOf ts i of
               None \<Rightarrow> None
             | Some (nextTransfer, _) \<Rightarrow>
                 Some (estimatedDate + (block_number nextTransfer - block_number transfer) * 12 * 1000)),
          transactionHash = transactionID transfer,
          blockNumber = block_number transfer,
          isMarketplace = False,
          marketplaceName = None\<rparr>)"

definition fallbackOwners :: "int \<Rightarrow> domain_data \<Rightarrow> owner list" where
  "fallbackOwners nw data =
     map (fallbackOwner (fallbackRegistrationDate nw data) (transfers data))
         [0..<length (transfers data)]"

definition transferOwners :: "env \<Rightarrow> domain_data \<Rightarrow> owner list" where
  "transferOwners e data =
     (if rpcUrl e then rpcOwners (transfers data) else fallbackOwners (now e) data)"

section \<open>Registration, ordering, consolidation and filtering\<close>

text \<open>
  The registration step for the record \<open>registration\<close> it is given; the route passes
  \<open>data.registrations[0]\<close>.
\<close>

definition sameDay :: "int \<Rightarrow> int \<Rightarrow> bool" where
  "sameDay a b \<longleftrightarrow>
     getFullYear a = getFullYear b \<and> getMonth a = getMonth b \<and> getDate a = getDate b"

definition registrationEntry :: "registration \<Rightarrow> int \<Rightarrow> int option \<Rightarrow> owner" where
  "registrationEntry registration regDate end =
     \<lparr>address = registrant registration,
      startDate = regDate,
      endDate = end,
      transactionHash = [],
      blockNumber = 0,
      isMarketplace = False,
      marketplaceName = None\<rparr>"

definition applyRegistration :: "int \<Rightarrow> string \<Rightarrow> registration \<Rightarrow> owner list \<Rightarrow> owner list" where
  "applyRegistration nw domainOwner registration owners =
     (let regTimestamp = registrationDate registration;
          regDate = regTimestamp * 1000
      in if regTimestamp > 0 \<and> reasonableYear nw regDate then
           (let registrantAddress = toLowerCase (registrant registration);
                registrantIsCurrentOwner = (registrantAddress = toLowerCase domainOwner)
            in case owners of
                 firstOwner # rest \<Rightarrow>
                   if toLowerCase (address firstOwner) = registrantAddress \<and>
                      sameDay (startDate firstOwner) regDate
                   then firstOwner\<lparr>startDate := regDate\<rparr> # rest
                   else if startDate firstOwner > regDate then
                     (if \<not> registrantIsCurrentOwner
                      then registrationEntry registration regDate (Some (startDate firstOwner)) # owners
                      else owners)
                   else owners
               | [] \<Rightarrow>
                   if registrantIsCurrentOwner
                   then [registrationEntry registration regDate None]
                   else [])
         else owners)"

definition registrationStep :: "int \<Rightarrow> domain_data \<Rightarrow> owner list \<Rightarrow> owner list" where
  "registrationStep nw data owners =
     (case registrations data of
        [] \<Rightarrow> owners
      | registration # _ \<Rightarrow> applyRegistration nw (domain_owner data) registration owners)"

text \<open>
  \<open>owners.sort((a, b) => dateA.getTime() - dateB.getTime())\<close>: \<open>Array.prototype.sort\<close> is
  stable, as insertion sort by key is.
\<close>

definition sortByDate :: "owner list \<Rightarrow> owner list" where
  "sortByDate owners = sort_key startDate owners"

text \<open>
  Consolidation. \<open>mergedEnd\<close> is the end date that \<open>lastConsolidated\<close> has after the merge
  of \<open>current\<close> into it; \<open>consolidate_loop\<close> is the loop, its first argument the array
  \<open>consolidatedOwners\<close> built so far.
\<close>

definition mergedEnd :: "int option \<Rightarrow> int option \<Rightarrow> int option" where
  "mergedEnd lastEnd currentEnd =
     (case currentEnd of
        Some ce \<Rightarrow>
          (case lastEnd of
             None \<Rightarrow> Some ce
           | Some le \<Rightarrow> if ce > le then Some ce else Some le)
      | None \<Rightarrow> None)"

fun consolidate_loop :: "owner list \<Rightarrow> owner list \<Rightarrow> owner list" where
  "consolidate_loop acc [] = acc"
| "consolidate_loop acc (current # rest) =
     (if acc = [] then consolidate_loop [current] rest
      else
        let lastConsolidated = last acc in
        if toLowerCase (address lastConsolidated) = toLowerCase (address current)
        then consolidate_loop
               (butlast acc @
                  [lastConsolidated\<lparr>endDate := mergedEnd (endDate lastConsolidated) (endDate current)\<rparr>])
               rest
        else consolidate_loop (acc @ [current]) rest)"

definition consolidatedOwners :: "owner list \<Rightarrow> owner list" where
  "consolidatedOwners owners = consolidate_loop [] owners"

text \<open>The filter on the duration, applied after consolidation and again on serialisation.\<close>

definition positiveDuration :: "owner \<Rightarrow> bool" where
  "positiveDuration ow =
     (case endDate ow of
        None \<Rightarrow> True
      | Some e \<Rightarrow> e - startDate ow > 0)"

definition ownersWithISOStrings :: "owner list \<Rightarrow> owner list" where
  "ownersWithISOStrings owners = filter positiveDuration owners"

text \<open>The periods of the route before the current owner is separated from the history.\<close>

definition reconciledOwners :: "env \<Rightarrow> domain_data \<Rightarrow> owner list" where
  "reconciledOwners e data =
     ownersWithISOStrings
       (filter positiveDuration
          (consolidatedOwners
             (sortByDate (registrationStep (now e) data (transferOwners e data)))))"

section \<open>Expiry and the current owner\<close>

text \<open>
  \<open>[...data.registrations].sort((a, b) => dateB - dateA)[0]\<close>, for a list that is not empty.
\<close>

definition latestRegistration :: "registration list \<Rightarrow> registration" where
  "latestRegistration regs = hd (sort_key (\<lambda>r. - registrationDate r) regs)"

definition getExpiryDate :: "int \<Rightarrow> registration list \<Rightarrow> int option" where
  "getExpiryDate nw regs =
     (if regs \<noteq> [] then
        (let expiryTimestamp = expiryDate (latestRegistration regs);
             expiry = expiryTimestamp * 1000
         in if expiryTimestamp > 0 \<and> getFullYear expiry \<ge> 2015 \<and> expiry > nw - 86400000
            then Some expiry else None)
      else None)"

definition mostRecentRegistrationDate :: "int \<Rightarrow> string \<Rightarrow> registration list \<Rightarrow> int option" where
  "mostRecentRegistrationDate nw domainOwner regs =
     (if regs \<noteq> [] then
        (let latestReg = latestRegistration regs;
             regTimestamp = registrationDate latestReg;
             regDate = regTimestamp * 1000;
             registrantMatchesCurrent = (toLowerCase (registrant latestReg) = toLowerCase domainOwner)
         in if regTimestamp > 0 \<and> reasonableYear nw regDate \<and> registrantMatchesCurrent
            then Some regDate else None)
      else None)"

text \<open>
  \<open>historicalOwners.map(...)\<close> of the branch where the last owner is the current one: an
  end date after the next owner's start is cut to it, a missing one is filled from the
  next owner's start, or from the current owner's start for the last element.
\<close>

fun ensureEndDates :: "int \<Rightarrow> owner list \<Rightarrow> owner list" where
  "ensureEndDates curStart [] = []"
| "ensureEndDates curStart [ow] =
     [case endDate ow of
        Some e \<Rightarrow> ow
      | None \<Rightarrow> ow\<lparr>endDate := Some curStart\<rparr>]"
| "ensureEndDates curStart (ow # nextOwner # rest) =
     (case endDate ow of
        Some e \<Rightarrow>
          if e > startDate nextOwner then ow\<lparr>endDate := Some (startDate nextOwner)\<rparr> else ow
      | None \<Rightarrow> ow\<lparr>endDate := Some (startDate nextOwner)\<rparr>)
     # ensureEndDates curStart (nextOwner # rest)"

text \<open>The start of a registration later than \<open>d\<close>, else \<open>d\<close>.\<close>

definition laterRegistration :: "int option \<Rightarrow> int \<Rightarrow> int" where
  "laterRegistration mostRecent d =
     (case mostRecent of
        Some r \<Rightarrow> if r > d then r else d
      | None \<Rightarrow> d)"


text \<open>The start date of the current owner when there is no period at all.\<close>

definition noTransferStart :: "int \<Rightarrow> domain_data \<Rightarrow> int" where
  "noTransferStart nw data =
     (let registrationDate0 =
            (case registrations data of
               r # _ \<Rightarrow>
                 (case parsedDate nw (registrationDate r) of Some d \<Rightarrow> d | None \<Rightarrow> nw)
             | [] \<Rightarrow>
                 (case createdAt data of
                    Some c \<Rightarrow> (case parsedDate nw c of Some d \<Rightarrow> d | None \<Rightarrow> nw)
                  | None \<Rightarrow> nw))
      in if getFullYear registrationDate0 < 2015 then nw else registrationDate0)"

text \<open>
  The separation of the current owner from the history: the pair of \<open>historicalOwners\<close>
  and \<open>currentOwnerData\<close> (before the avatar).
\<close>

definition separateCurrent ::
  "int \<Rightarrow> domain_data \<Rightarrow> int option \<Rightarrow> owner list \<Rightarrow> owner list \<times> currentOwnerData" where
  "separateCurrent nw data expiry owners =
     (let mostRecent = mostRecentRegistrationDate nw (domain_owner data) (registrations data)
      in if owners \<noteq> [] then
           (let lastOwner = last owners
            in if toLowerCase (address lastOwner) = toLowerCase (domain_owner data) then
                 (let start = laterRegistration mostRecent (startDate lastOwner);
                      current = \<lparr>cur_address = domain_owner data,
                                 cur_startDate = start,
                                 cur_endDate = expiry,
                                 cur_transactionHash = transactionHash lastOwner,
                                 avatar = None\<rparr>
                  in (ensureEndDates start (butlast owners), current))
               else
                 (let lastTransferDate =
                        (case endDate lastOwner of Some e \<Rightarrow> e | None \<Rightarrow> startDate lastOwner);
                      start = laterRegistration mostRecent lastTransferDate;
                      current = \<lparr>cur_address = domain_owner data,
                                 cur_startDate = start,
                                 cur_endDate = expiry,
                                 cur_transactionHash = [],
                                 avatar = None\<rparr>
                  in (butlast owners @
                        [case endDate lastOwner of
                           Some e \<Rightarrow> lastOwner
                         | None \<Rightarrow> lastOwner\<lparr>endDate := Some start\<rparr>],
                      current)))
         else
           ([], \<lparr>cur_address = domain_owner data,
                 cur_startDate = noTransferStart nw data,
                 cur_endDate = expiry,
                 cur_transactionHash = [],
                 avatar = None\<rparr>))"

text \<open>
  The avatar: set only when the request returned, the response was \<open>ok\<close>, its body parsed
  and \<open>avatar_small\<close> is a non-empty string; an exception is caught and logged.
\<close>

definition fetchAvatar :: "avatar_response \<Rightarrow> currentOwnerData \<Rightarrow> currentOwnerData" where
  "fetchAvatar response current =
     (case response of
        Json (Some avatar_small) \<Rightarrow>
          if avatar_small \<noteq> [] then current\<lparr>avatar := Some avatar_small\<rparr> else current
      | _ \<Rightarrow> current)"

text \<open>
  The history route from the check of the domain's owner on. \<open>historyBeforeAvatar\<close> is
  the response the route would send if it returned just before the avatar request.
\<close>

definition zeroAddress :: string where
  "zeroAddress = ''0x0000000000000000000000000000000000000000''"

definition historyBeforeAvatar :: "env \<Rightarrow> domain_data \<Rightarrow> history" where
  "historyBeforeAvatar e data =
     (let expiry = getExpiryDate (now e) (registrations data);
          (historicalOwners, current) =
             separateCurrent (now e) data expiry (reconciledOwners e data)
      in \<lparr>res_owners = historicalOwners, res_currentOwner = current, res_expiryDate = expiry\<rparr>)"

definition GET :: "env \<Rightarrow> domain_data \<Rightarrow> avatar_response \<Rightarrow> error + history" where
  "GET e data response =
     (if domain_owner data = zeroAddress then Inl Unowned
      else
        let h = historyBeforeAvatar e data
        in Inr (h\<lparr>res_currentOwner := fetchAvatar response (res_currentOwner h)\<rparr>))"

section \<open>The timeline of the history component\<close>

definition zeroOwner :: "int \<Rightarrow> int \<Rightarrow> ENSOwner" where
  "zeroOwner start end =
     \<lparr>e_address = zeroAddress,
      e_startDate = start,
      e_endDate = Some end,
      e_transactionHash = [],
      e_isMarketplace = False,
      e_marketplaceName = None\<rparr>"

definition sameOwnerAndStart :: "ENSOwner \<Rightarrow> ENSOwner \<Rightarrow> bool" where
  "sameOwnerAndStart a b \<longleftrightarrow>
     toLowerCase (e_address a) = toLowerCase (e_address b) \<and> e_startDate a = e_startDate b"

definition allOwners :: "ENSOwner list \<Rightarrow> ENSOwner option \<Rightarrow> ENSOwner list" where
  "allOwners owners currentOwner =
     (case currentOwner of
        None \<Rightarrow> owners
      | Some c \<Rightarrow>
          (let isDuplicate = list_ex (\<lambda>ow. sameOwnerAndStart ow c) owners
           in if \<not> isDuplicate then owners @ [c] else owners))"

text \<open>The loop over \<open>sortedOwners\<close> with the set \<open>seen\<close> of keys.\<close>

fun deduplicatedOwners :: "(string \<times> int) set \<Rightarrow> ENSOwner list \<Rightarrow> ENSOwner list" where
  "deduplicatedOwners seen [] = []"
| "deduplicatedOwners seen (ow # rest) =
     (let key = (toLowerCase (e_address ow), e_startDate ow)
      in if key \<notin> seen then ow # deduplicatedOwners (insert key seen) rest
         else deduplicatedOwners seen rest)"

definition finalOwners :: "ENSOwner list \<Rightarrow> ENSOwner option \<Rightarrow> ENSOwner list" where
  "finalOwners owners currentOwner =
     deduplicatedOwners {} (sort_key e_startDate (allOwners owners currentOwner))"

definition isCurrentOwner :: "ENSOwner option \<Rightarrow> ENSOwner \<Rightarrow> bool" where
  "isCurrentOwner currentOwner ow =
     (case currentOwner of
        None \<Rightarrow> False
      | Some c \<Rightarrow> sameOwnerAndStart ow c)"

definition periodEnd :: "ENSOwner option \<Rightarrow> ENSOwner \<Rightarrow> int option" where
  "periodEnd currentOwner ow =
     (case e_endDate ow of
        Some e \<Rightarrow> Some e
      | None \<Rightarrow>
          (case currentOwner of
             Some c \<Rightarrow> if isCurrentOwner currentOwner ow then e_endDate c else None
           | None \<Rightarrow> None))"

definition periodDuration :: "int \<Rightarrow> ENSOwner option \<Rightarrow> ENSOwner \<Rightarrow> int" where
  "periodDuration nw currentOwner ow =
     (if isCurrentOwner currentOwner ow then nw - e_startDate ow
      else (case periodEnd currentOwner ow of
              Some e \<Rightarrow> e - e_startDate ow
            | None \<Rightarrow> nw - e_startDate ow))"

definition ownerPeriod :: "int \<Rightarrow> ENSOwner option \<Rightarrow> ENSOwner \<Rightarrow> TimelinePeriod" where
  "ownerPeriod nw currentOwner ow =
     \<lparr>p_owner = ow,
      p_startDate = e_startDate ow,
      p_endDate = periodEnd currentOwner ow,
      isDormant = False,
      p_isMarketplace = e_isMarketplace ow,
      p_marketplaceName = e_marketplaceName ow,
      duration = periodDuration nw currentOwner ow\<rparr>"

definition dormantPeriod :: "int \<Rightarrow> int \<Rightarrow> TimelinePeriod" where
  "dormantPeriod currentEndDate nextStartDate =
     \<lparr>p_owner = zeroOwner currentEndDate nextStartDate,
      p_startDate = currentEndDate,
      p_endDate = Some nextStartDate,
      isDormant = True,
      p_isMarketplace = False,
      p_marketplaceName = None,
      duration = nextStartDate - currentEndDate\<rparr>"

text \<open>
  The loop over \<open>finalOwners\<close>: the head of the list is \<open>finalOwners[i]\<close>, the next element
  \<open>finalOwners[i + 1]\<close>. An entry of no positive duration is skipped, with its gap.
\<close>

fun buildPeriods :: "int \<Rightarrow> ENSOwner option \<Rightarrow> ENSOwner list \<Rightarrow> TimelinePeriod list" where
  "buildPeriods nw currentOwner [] = []"
| "buildPeriods nw currentOwner (ow # rest) =
     (if periodDuration nw currentOwner ow \<le> 0 then buildPeriods nw currentOwner rest
      else
        ownerPeriod nw currentOwner ow #
        (case rest of
           [] \<Rightarrow> []
         | nextOwner # _ \<Rightarrow>
             (let currentEndDate =
                    (case periodEnd currentOwner ow of Some e \<Rightarrow> e | None \<Rightarrow> nw)
              in if e_startDate nextOwner > currentEndDate
                 then [dormantPeriod currentEndDate (e_startDate nextOwner)]
                 else [])) @
        buildPeriods nw currentOwner rest)"

definition timeline :: "int \<Rightarrow> ENSOwner list \<Rightarrow> ENSOwner option \<Rightarrow> TimelinePeriod list" where
  "timeline nw owners currentOwner = buildPeriods nw currentOwner (finalOwners owners currentOwner)"

text \<open>\<open>timelineSpan.total\<close>: from the earliest start of the timeline to now.\<close>

definition timelineSpanTotal :: "int \<Rightarrow> TimelinePeriod list \<Rightarrow> int" where
  "timelineSpanTotal nw periods = (if periods = [] then 0 else nw - Min (set (map p_startDate periods)))"

section \<open>The leaderboard\<close>

record DomainTransferCount =
  name :: string
  transferCount :: nat





section \<open>Notions used to state the properties\<close>

text \<open>Two periods of the same owner, compared as the consolidation compares them.\<close>

definition sameAddress :: "owner \<Rightarrow> owner \<Rightarrow> bool" where
  "sameAddress a b \<longleftrightarrow> toLowerCase (address a) = toLowerCase (address b)"

text \<open>A sequence is consolidated when no two consecutive periods have the same owner.\<close>

fun consolidated :: "owner list \<Rightarrow> bool" where
  "consolidated [] = True"
| "consolidated [x] = True"
| "consolidated (x # y # ys) = (\<not> sameAddress x y \<and> consolidated (y # ys))"

text \<open>The maximal runs of consecutive periods of one owner.\<close>

function runs :: "owner list \<Rightarrow> owner list list" where
  "runs [] = []"
| "runs (x # xs) = (x # takeWhile (sameAddress x) xs) # runs (dropWhile (sameAddress x) xs)"
  by pat_completeness auto
termination
  by (relation "measure length") (auto simp: length_dropWhile_le less_Suc_eq_le)

text \<open>
  The end of a merged run: open when the last member of the run is open; otherwise the
  latest end among the members that follow the last open member (among all members when
  none is open).
\<close>

definition runEnd :: "owner list \<Rightarrow> int option" where
  "runEnd r =
     (let closed = rev (takeWhile (\<lambda>e. e \<noteq> None) (rev (map endDate r)))
      in if closed = [] then None else Some (Max (set (map the closed))))"

definition mergeRun :: "owner list \<Rightarrow> owner" where
  "mergeRun r = (hd r)\<lparr>endDate := runEnd r\<rparr>"

text \<open>The consolidation loop with the last consolidated period kept apart from the rest.\<close>

fun consolidate_from :: "owner \<Rightarrow> owner list \<Rightarrow> owner list" where
  "consolidate_from l [] = [l]"
| "consolidate_from l (c # rest) =
     (if sameAddress l c
      then consolidate_from (l\<lparr>endDate := mergedEnd (endDate l) (endDate c)\<rparr>) rest
      else l # consolidate_from c rest)"

definition foldEnd :: "owner \<Rightarrow> owner list \<Rightarrow> int option" where
  "foldEnd l ys = foldl mergedEnd (endDate l) (map endDate ys)"

text \<open>A period with the given owner, start and end, for the examples.\<close>

definition period :: "string \<Rightarrow> int \<Rightarrow> int option \<Rightarrow> owner" where
  "period a s e =
     \<lparr>address = a, startDate = s, endDate = e, transactionHash = [], blockNumber = 0,
      isMarketplace = False, marketplaceName = None\<rparr>"

text \<open>A transfer with the given owner and block number, for the examples.\<close>

definition transferTo :: "string \<Rightarrow> int \<Rightarrow> transfer" where
  "transferTo a b =
     \<lparr>domain_name = Some ''name.eth'', block_number = b, transactionID = ''0x'' @ a, owner_id = a\<rparr>"

text \<open>The responses of the avatar service that carry no avatar.\<close>

definition noAvatar :: "avatar_response \<Rightarrow> bool" where
  "noAvatar response \<longleftrightarrow>
     response = FetchThrows \<or> response = NotOk \<or> response = JsonThrows \<or>
     response = Json None \<or> response = Json (Some [])"

text \<open>
  Historical periods in chronological order, each closed with a positive duration and
  ending no later than the next one starts, the last no later than \<open>curStart\<close>.
\<close>

fun backToBack :: "ENSOwner list \<Rightarrow> int \<Rightarrow> bool" where
  "backToBack [] curStart = True"
| "backToBack (ow # rest) curStart =
     (case e_endDate ow of
        None \<Rightarrow> False
      | Some e \<Rightarrow>
          e_startDate ow < e \<and>
          e \<le> (case rest of [] \<Rightarrow> curStart | nextOwner # _ \<Rightarrow> e_startDate nextOwner) \<and>
          backToBack rest curStart)"

text \<open>An owner of the history component with the given address, start and end, for the examples.\<close>

definition ensOwner :: "string \<Rightarrow> int \<Rightarrow> int option \<Rightarrow> ENSOwner" where
  "ensOwner a s e =
     \<lparr>e_address = a, e_startDate = s, e_endDate = e, e_transactionHash = [],
      e_isMarketplace = False, e_marketplaceName = None\<rparr>"








section \<open>Consolidation\<close>

lemma sameAddress_upd [simp]:
  "sameAddress (l\<lparr>endDate := e\<rparr>) c = sameAddress l c"
  "sameAddress c (l\<lparr>endDate := e\<rparr>) = sameAddress c l"
  by (simp_all add: sameAddress_def)

lemma sameAddress_refl [simp]: "sameAddress x x"
  by (simp add: sameAddress_def)

lemma consolidate_loop_from:
  "acc \<noteq> [] \<Longrightarrow> consolidate_loop acc xs = butlast acc @ consolidate_from (last acc) xs"
proof (induction xs arbitrary: acc)
  case Nil
  then show ?case by simp
next
  case (Cons c rest)
  show ?case
  proof (cases "sameAddress (last acc) c")
    case True
    with Cons show ?thesis by (simp add: sameAddress_def Let_def)
  next
    case False
    with Cons show ?thesis by (simp add: sameAddress_def Let_def butlast_append)
  qed
qed

lemma consolidatedOwners_Nil: "consolidatedOwners [] = []"
  by (simp add: consolidatedOwners_def)

lemma consolidatedOwners_Cons: "consolidatedOwners (x # xs) = consolidate_from x xs"
  by (simp add: consolidatedOwners_def consolidate_loop_from)

lemma consolidate_from_id: "consolidated (x # xs) \<Longrightarrow> consolidate_from x xs = x # xs"
  by (induction xs arbitrary: x) auto

lemma consolidate_from_hd: "\<exists>e ys. consolidate_from c rest = c\<lparr>endDate := e\<rparr> # ys"
proof (induction rest arbitrary: c)
  case Nil
  have "consolidate_from c [] = c\<lparr>endDate := endDate c\<rparr> # []" by simp
  then show ?case by blast
next
  case (Cons d rest)
  show ?case
  proof (cases "sameAddress c d")
    case True
    obtain e ys where "consolidate_from (c\<lparr>endDate := mergedEnd (endDate c) (endDate d)\<rparr>) rest
        = c\<lparr>endDate := mergedEnd (endDate c) (endDate d)\<rparr>\<lparr>endDate := e\<rparr> # ys"
      using Cons by blast
    then have "consolidate_from c (d # rest) = c\<lparr>endDate := e\<rparr> # ys" using True by simp
    then show ?thesis by blast
  next
    case False
    have "consolidate_from c (d # rest) = c\<lparr>endDate := endDate c\<rparr> # consolidate_from d rest"
      using False by simp
    then show ?thesis by blast
  qed
qed

lemma consolidated_from: "consolidated (consolidate_from x xs)"
proof (induction xs arbitrary: x)
  case Nil
  show ?case by simp
next
  case (Cons c rest)
  show ?case
  proof (cases "sameAddress x c")
    case True
    then show ?thesis using Cons by simp
  next
    case False
    have "consolidated (consolidate_from c rest)" by (rule Cons)
    moreover obtain e ys where "consolidate_from c rest = c\<lparr>endDate := e\<rparr> # ys"
      using consolidate_from_hd by blast
    ultimately show ?thesis using False by simp
  qed
qed

lemma consolidated_consolidatedOwners: "consolidated (consolidatedOwners xs)"
  by (cases xs) (simp_all add: consolidatedOwners_Nil consolidatedOwners_Cons consolidated_from)

lemma consolidate_from_run:
  "\<forall>y\<in>set ys. sameAddress l y \<Longrightarrow> zs = [] \<or> \<not> sameAddress l (hd zs) \<Longrightarrow>
   consolidate_from l (ys @ zs) = l\<lparr>endDate := foldEnd l ys\<rparr> # consolidatedOwners zs"
proof (induction ys arbitrary: l)
  case Nil
  then show ?case
    by (cases zs) (auto simp: foldEnd_def consolidatedOwners_Nil consolidatedOwners_Cons)
next
  case (Cons y ys)
  then show ?case by (simp add: foldEnd_def)
qed

lemma foldl_mergedEnd_closed:
  "foldl mergedEnd e es =
     (let closed = rev (takeWhile (\<lambda>e. e \<noteq> None) (rev (e # es)))
      in if closed = [] then None else Some (Max (set (map the closed))))"
proof (induction es rule: rev_induct)
  case Nil
  then show ?case by (cases e) (auto simp: Let_def)
next
  case (snoc x xs)
  show ?case
  proof (cases x)
    case None
    then show ?thesis by (simp add: mergedEnd_def Let_def)
  next
    case (Some c)
    show ?thesis
    proof (cases "foldl mergedEnd e xs")
      case None
      then show ?thesis using snoc Some
        by (auto simp: mergedEnd_def Let_def split: if_splits)
    next
      case (Some m)
      let ?cl = "takeWhile (\<lambda>e. e \<noteq> None) (rev (e # xs))"
      from Some snoc have ne: "?cl \<noteq> []" and m: "m = Max (set (map the (rev ?cl)))"
        by (auto simp: Let_def split: if_splits)
      have "Max (set (map the (rev (Some c # ?cl)))) = max c (Max (set (map the (rev ?cl))))"
        using ne by (simp add: Max_insert)
      moreover have "foldl mergedEnd e (xs @ [x]) = Some (max c m)"
        using Some \<open>x = Some c\<close> by (simp add: mergedEnd_def max_def)
      ultimately show ?thesis using \<open>x = Some c\<close> m
        by (simp add: Let_def)
    qed
  qed
qed

lemma runEnd_fold: "runEnd (x # ys) = foldEnd x ys"
  unfolding runEnd_def foldEnd_def
  using foldl_mergedEnd_closed [of "endDate x" "map endDate ys"] by simp

lemma dropWhile_hd_not: "dropWhile P xs = [] \<or> \<not> P (hd (dropWhile P xs))"
  by (metis hd_dropWhile)

lemma consolidatedOwners_runs: "consolidatedOwners xs = map mergeRun (runs xs)"
proof (induction xs rule: runs.induct)
  case 1
  show ?case by (simp add: consolidatedOwners_Nil)
next
  case (2 x xs)
  let ?ys = "takeWhile (sameAddress x) xs" and ?zs = "dropWhile (sameAddress x) xs"
  have a: "\<forall>y\<in>set ?ys. sameAddress x y" by (auto dest: set_takeWhileD)
  have b: "?zs = [] \<or> \<not> sameAddress x (hd ?zs)" by (rule dropWhile_hd_not)
  have "consolidate_from x (?ys @ ?zs) = x\<lparr>endDate := foldEnd x ?ys\<rparr> # consolidatedOwners ?zs"
    using a b by (rule consolidate_from_run)
  then show ?case using 2
    by (simp add: consolidatedOwners_Cons mergeRun_def runEnd_fold)
qed

lemma concat_runs: "concat (runs xs) = xs"
  by (induction xs rule: runs.induct) simp_all

lemma runs_nonempty: "r \<in> set (runs xs) \<Longrightarrow> r \<noteq> []"
  by (induction xs rule: runs.induct) auto

lemma runs_same: "r \<in> set (runs xs) \<Longrightarrow> y \<in> set r \<Longrightarrow> sameAddress (hd r) y"
  by (induction xs rule: runs.induct) (auto dest: set_takeWhileD)

lemma runs_maximal: "consolidated (map hd (runs xs))"
proof (induction xs rule: runs.induct)
  case 1
  show ?case by simp
next
  case (2 x xs)
  show ?case
  proof (cases "dropWhile (sameAddress x) xs")
    case Nil
    then have "runs (dropWhile (sameAddress x) xs) = []" by (simp del: dropWhile_eq_Nil_conv)
    then show ?thesis by simp
  next
    case (Cons z zs)
    then have "\<not> sameAddress x z" by (metis hd_dropWhile list.sel(1) list.simps(3))
    then show ?thesis using 2 Cons by simp
  qed
qed

lemma sorted_map_dropWhile:
  assumes "sorted (map f xs)"
  shows "sorted (map f (dropWhile P xs))"
proof -
  have "sorted (map f (takeWhile P xs @ dropWhile P xs))" using assms by simp
  then show ?thesis unfolding map_append sorted_append by blast
qed

lemma run_start_earliest:
  assumes "sorted (map startDate xs)" "r \<in> set (runs xs)" "y \<in> set r"
  shows "startDate (mergeRun r) \<le> startDate y"
  using assms
proof (induction xs rule: runs.induct)
  case 1
  then show ?case by simp
next
  case (2 x xs)
  have s: "sorted (map startDate (dropWhile (sameAddress x) xs))"
    using 2(2) by (simp add: sorted_map_dropWhile)
  show ?case
  proof (cases "r = x # takeWhile (sameAddress x) xs")
    case True
    then have "y = x \<or> y \<in> set xs" using 2(4) by (auto dest: set_takeWhileD)
    then show ?thesis using True 2(2) by (auto simp: mergeRun_def)
  next
    case False
    then have "r \<in> set (runs (dropWhile (sameAddress x) xs))" using 2(3) by simp
    then show ?thesis using 2(1) s 2(4) by blast
  qed
qed

text \<open>
  C3, as the code has it. The consolidation replaces every maximal run of consecutive
  periods of one owner (addresses compared in lower case) by a single period: the run's
  first member with the end \<open>runEnd\<close>. The runs partition the input, each is of one
  owner, and neighbouring runs are of different owners. The merged period is open exactly
  when the last member of the run is open; otherwise its end is the latest end among the
  members after the last open one. On an input ordered by start date, as the route's is,
  the merged period starts at the earliest start of its run.
\<close>

theorem consolidation_merges_runs:
  "consolidatedOwners owners = map mergeRun (runs owners) \<and>
   concat (runs owners) = owners \<and>
   consolidated (map hd (runs owners)) \<and>
   (\<forall>r\<in>set (runs owners). r \<noteq> [] \<and> (\<forall>y\<in>set r. sameAddress (hd r) y)) \<and>
   (sorted (map startDate owners) \<longrightarrow>
      (\<forall>r\<in>set (runs owners). \<forall>y\<in>set r. startDate (mergeRun r) \<le> startDate y))"
  using consolidatedOwners_runs concat_runs runs_maximal runs_nonempty runs_same
    run_start_earliest by blast

theorem consolidation_merges_runs_witness:
  "sorted (map startDate [period ''0xA'' 0 (Some 7), period ''0xa'' 1 None,
                          period ''0xa'' 2 (Some 5), period ''0xb'' 5 None]) \<and>
   runs [period ''0xA'' 0 (Some 7), period ''0xa'' 1 None,
         period ''0xa'' 2 (Some 5), period ''0xb'' 5 None] =
     [[period ''0xA'' 0 (Some 7), period ''0xa'' 1 None, period ''0xa'' 2 (Some 5)],
      [period ''0xb'' 5 None]] \<and>
   consolidatedOwners [period ''0xA'' 0 (Some 7), period ''0xa'' 1 None,
                       period ''0xa'' 2 (Some 5), period ''0xb'' 5 None] =
     [period ''0xA'' 0 (Some 5), period ''0xb'' 5 None]"
  using consolidation_merges_runs
    [of "[period ''0xA'' 0 (Some 7), period ''0xa'' 1 None,
          period ''0xa'' 2 (Some 5), period ''0xb'' 5 None]"]
  by (simp add: period_def sameAddress_def toLowerCase_def lower_char_def
      mergeRun_def runEnd_def)

text \<open>
  C3 as the specification words it fails: a run whose first member is open and whose
  second member is closed is merged into a closed period.
\<close>

theorem consolidation_open_member_counterexample:
  "sameAddress (period ''0xA'' 0 None) (period ''0xa'' 1 (Some 5)) \<and>
   endDate (period ''0xA'' 0 None) = None \<and>
   consolidatedOwners [period ''0xA'' 0 None, period ''0xa'' 1 (Some 5)] =
     [period ''0xA'' 0 (Some 5)]"
  by (simp add: period_def sameAddress_def toLowerCase_def lower_char_def
      consolidatedOwners_def mergedEnd_def)

text \<open>
  C8. Consolidation is idempotent: on a sequence in which no two consecutive periods
  have the same owner (case-insensitively) it returns the sequence itself.
\<close>

theorem consolidation_idempotent:
  "consolidated owners \<Longrightarrow> consolidatedOwners owners = owners"
  by (cases owners) (simp_all add: consolidatedOwners_Nil consolidatedOwners_Cons consolidate_from_id)

theorem consolidation_idempotent_witness:
  "consolidated [period ''0xa'' 0 (Some 5), period ''0xb'' 5 (Some 9), period ''0xA'' 9 None] \<and>
   consolidatedOwners [period ''0xa'' 0 (Some 5), period ''0xb'' 5 (Some 9), period ''0xA'' 9 None] =
     [period ''0xa'' 0 (Some 5), period ''0xb'' 5 (Some 9), period ''0xA'' 9 None]"
proof -
  have h: "consolidated [period ''0xa'' 0 (Some 5), period ''0xb'' 5 (Some 9), period ''0xA'' 9 None]"
    by (simp add: period_def sameAddress_def toLowerCase_def lower_char_def)
  show ?thesis using h consolidation_idempotent [OF h] by simp
qed

section \<open>The avatar\<close>

lemma separateCurrent_avatar: "avatar (snd (separateCurrent nw data expiry owners)) = None"
  by (simp add: separateCurrent_def Let_def)

lemma historyBeforeAvatar_avatar: "avatar (res_currentOwner (historyBeforeAvatar e data)) = None"
  by (simp add: historyBeforeAvatar_def Let_def case_prod_beta separateCurrent_avatar)

lemma fetchAvatar_noAvatar: "noAvatar response \<Longrightarrow> fetchAvatar response current = current"
  by (auto simp: noAvatar_def fetchAvatar_def)

text \<open>
  C9. A failure of the avatar lookup never fails the result. When the request throws,
  the response is not \<open>ok\<close>, its body does not parse or it carries no avatar, the route
  returns what it would return without the lookup, the avatar absent; and whatever the
  lookup gives, the route fails exactly when it fails without it, and every field other
  than the avatar is the same.
\<close>

theorem avatar_failure_absorbed:
  "(noAvatar response \<longrightarrow>
      GET e data response =
        (if domain_owner data = zeroAddress then Inl Unowned
         else Inr (historyBeforeAvatar e data))) \<and>
   avatar (res_currentOwner (historyBeforeAvatar e data)) = None \<and>
   (GET e data response = Inl Unowned \<longleftrightarrow> domain_owner data = zeroAddress) \<and>
   (\<forall>h. GET e data response = Inr h \<longrightarrow>
      res_owners h = res_owners (historyBeforeAvatar e data) \<and>
      res_expiryDate h = res_expiryDate (historyBeforeAvatar e data) \<and>
      res_currentOwner h =
        (res_currentOwner (historyBeforeAvatar e data))\<lparr>avatar := avatar (res_currentOwner h)\<rparr>)"
proof -
  have a: "noAvatar response \<longrightarrow>
      GET e data response =
        (if domain_owner data = zeroAddress then Inl Unowned
         else Inr (historyBeforeAvatar e data))"
    by (simp add: GET_def Let_def fetchAvatar_noAvatar)
  have b: "GET e data response = Inl Unowned \<longleftrightarrow> domain_owner data = zeroAddress"
    by (simp add: GET_def Let_def)
  have c: "fetchAvatar response current = current\<lparr>avatar := avatar (fetchAvatar response current)\<rparr>"
    for current
    by (simp add: fetchAvatar_def split: avatar_response.splits option.splits)
  have d: "\<forall>h. GET e data response = Inr h \<longrightarrow>
      res_owners h = res_owners (historyBeforeAvatar e data) \<and>
      res_expiryDate h = res_expiryDate (historyBeforeAvatar e data) \<and>
      res_currentOwner h =
        (res_currentOwner (historyBeforeAvatar e data))\<lparr>avatar := avatar (res_currentOwner h)\<rparr>"
    using c [of "res_currentOwner (historyBeforeAvatar e data)"]
    by (auto simp: GET_def Let_def split: if_splits)
  show ?thesis using a b d historyBeforeAvatar_avatar by blast
qed

theorem avatar_failure_absorbed_witness:
  "noAvatar FetchThrows \<and>
   GET \<lparr>rpcUrl = True, now = 1700000000000\<rparr>
       \<lparr>domain_owner = ''0xb'', createdAt = None, registrations = [],
        transfers = [(transferTo ''0xa'' 100, Some 1600000000),
                     (transferTo ''0xb'' 200, Some 1610000000)]\<rparr>
       FetchThrows =
     Inr \<lparr>res_owners =
            [\<lparr>address = ''0xa'', startDate = 1600000000000, endDate = Some 1610000000000,
              transactionHash = ''0x0xa'', blockNumber = 100, isMarketplace = False,
              marketplaceName = None\<rparr>],
          res_currentOwner =
            \<lparr>cur_address = ''0xb'', cur_startDate = 1610000000000, cur_endDate = None,
             cur_transactionHash = ''0x0xb'', avatar = None\<rparr>,
          res_expiryDate = None\<rparr>"
proof -
  have h: "noAvatar FetchThrows" by (simp add: noAvatar_def)
  have z: "domain_owner \<lparr>domain_owner = ''0xb'', createdAt = None, registrations = [],
        transfers = [(transferTo ''0xa'' 100, Some 1600000000),
                     (transferTo ''0xb'' 200, Some 1610000000)]\<rparr> \<noteq> zeroAddress"
    by (simp add: zeroAddress_def)
  have v: "historyBeforeAvatar \<lparr>rpcUrl = True, now = 1700000000000\<rparr>
       \<lparr>domain_owner = ''0xb'', createdAt = None, registrations = [],
        transfers = [(transferTo ''0xa'' 100, Some 1600000000),
                     (transferTo ''0xb'' 200, Some 1610000000)]\<rparr> =
     \<lparr>res_owners =
            [\<lparr>address = ''0xa'', startDate = 1600000000000, endDate = Some 1610000000000,
              transactionHash = ''0x0xa'', blockNumber = 100, isMarketplace = False,
              marketplaceName = None\<rparr>],
          res_currentOwner =
            \<lparr>cur_address = ''0xb'', cur_startDate = 1610000000000, cur_endDate = None,
             cur_transactionHash = ''0x0xb'', avatar = None\<rparr>,
          res_expiryDate = None\<rparr>"
    by code_simp
  have "noAvatar FetchThrows \<longrightarrow>
      GET \<lparr>rpcUrl = True, now = 1700000000000\<rparr>
          \<lparr>domain_owner = ''0xb'', createdAt = None, registrations = [],
            transfers = [(transferTo ''0xa'' 100, Some 1600000000),
                         (transferTo ''0xb'' 200, Some 1610000000)]\<rparr> FetchThrows =
        (if domain_owner \<lparr>domain_owner = ''0xb'', createdAt = None, registrations = [],
            transfers = [(transferTo ''0xa'' 100, Some 1600000000),
                         (transferTo ''0xb'' 200, Some 1610000000)]\<rparr> = zeroAddress
         then Inl Unowned
         else Inr (historyBeforeAvatar \<lparr>rpcUrl = True, now = 1700000000000\<rparr>
          \<lparr>domain_owner = ''0xb'', createdAt = None, registrations = [],
            transfers = [(transferTo ''0xa'' 100, Some 1600000000),
                         (transferTo ''0xb'' 200, Some 1610000000)]\<rparr>))"
    by (rule conjunct1 [OF avatar_failure_absorbed])
  then show ?thesis
    using h z by (simp only: v if_False simp_thms)
qed

section \<open>Marketplace detection and duplicate events\<close>

text \<open>
  C5 as the specification words it fails: a transfer between two others, each one block
  away and each to a different owner, is not classified as a marketplace when the lookup
  of the previous transfer's block failed.
\<close>

theorem marketplace_heuristic_counterexample:
  "map_of MARKETPLACE_CONTRACTS (toLowerCase (owner_id (transferTo ''0xb'' 101))) = None \<and>
   block_number (transferTo ''0xb'' 101) - block_number (transferTo ''0xa'' 100) \<le> 10 \<and>
   block_number (transferTo ''0xc'' 102) - block_number (transferTo ''0xb'' 101) \<le> 10 \<and>
   toLowerCase (owner_id (transferTo ''0xb'' 101)) \<noteq> toLowerCase (owner_id (transferTo ''0xa'' 100)) \<and>
   toLowerCase (owner_id (transferTo ''0xb'' 101)) \<noteq> toLowerCase (owner_id (transferTo ''0xc'' 102)) \<and>
   marketplaceCheck (Some (transferTo ''0xa'' 100, None))
                    (transferTo ''0xb'' 101, Some 1600000012)
                    (Some (transferTo ''0xc'' 102, Some 1600000024)) = (False, None)"
  by (simp add: marketplaceCheck_def isMarketplaceContract_def MARKETPLACE_CONTRACTS_def
      transferTo_def toLowerCase_def lower_char_def)

lemma marketplaceCheck_table:
  "map_of MARKETPLACE_CONTRACTS (toLowerCase (owner_id transfer)) = Some label \<Longrightarrow>
   marketplaceCheck prev (transfer, block) nxt = (True, Some label)"
  by (simp add: marketplaceCheck_def isMarketplaceContract_def Let_def)

lemma marketplaceCheck_unfold:
  "map_of MARKETPLACE_CONTRACTS (toLowerCase (owner_id transfer)) = None \<Longrightarrow>
   marketplaceCheck prev (transfer, block) nxt =
     (case (prev, nxt) of
        (Some (prevTransfer, prevBlock), Some (nextTransfer, nextBlock)) \<Rightarrow>
          if prevBlock \<noteq> None \<and> nextBlock \<noteq> None \<and> block \<noteq> None \<and>
             block_number transfer - block_number prevTransfer \<le> 10 \<and>
             block_number nextTransfer - block_number transfer \<le> 10 \<and>
             toLowerCase (owner_id transfer) \<noteq> toLowerCase (owner_id prevTransfer) \<and>
             toLowerCase (owner_id transfer) \<noteq> toLowerCase (owner_id nextTransfer)
          then (True, Some ''Marketplace'') else (False, None)
      | _ \<Rightarrow> (False, None))"
  by (cases prev; cases nxt)
     (auto simp: marketplaceCheck_def isMarketplaceContract_def Let_def)

lemma marketplaceCheck_heuristic:
  assumes "map_of MARKETPLACE_CONTRACTS (toLowerCase (owner_id transfer)) = None"
  shows "marketplaceCheck prev (transfer, block) nxt =
     (if \<exists>p pb n nb b.
           prev = Some (p, Some pb) \<and> nxt = Some (n, Some nb) \<and> block = Some b \<and>
           block_number transfer - block_number p \<le> 10 \<and>
           block_number n - block_number transfer \<le> 10 \<and>
           toLowerCase (owner_id transfer) \<noteq> toLowerCase (owner_id p) \<and>
           toLowerCase (owner_id transfer) \<noteq> toLowerCase (owner_id n)
      then (True, Some ''Marketplace'') else (False, None))"
proof (cases prev)
  case None
  then show ?thesis by (simp add: marketplaceCheck_unfold [OF assms])
next
  case (Some pp)
  obtain p pb where pp: "pp = (p, pb)" by (cases pp)
  show ?thesis
  proof (cases nxt)
    case None
    then show ?thesis using Some by (simp add: marketplaceCheck_unfold [OF assms])
  next
    case (Some nn)
    obtain n nb where nn: "nn = (n, nb)" by (cases nn)
    show ?thesis
      using \<open>prev = Some pp\<close> Some pp nn
      by (cases pb; cases nb; cases block) (simp_all add: marketplaceCheck_unfold [OF assms])
  qed
qed

lemma rpcOwner_marketplace:
  "rpcOwner ts i = Some ow \<Longrightarrow>
   (isMarketplace ow, marketplaceName ow) = marketplaceCheck (prevOf ts i) (ts ! i) (nextOf ts i)"
  by (auto simp: rpcOwner_def Let_def split: if_splits prod.splits)

text \<open>
  C5, as the code has it. The check of a transfer gives the table's label when the
  lower-cased owner address is a key of the table. Otherwise it gives the generic label
  exactly when a previous and a next transfer exist, the block lookups of all three
  transfers succeeded, the block-number differences current minus previous and next
  minus current are each at most 10, and the owner differs from both neighbours' owners;
  in every other case the transfer is no marketplace. The periods built with block
  timestamps carry this verdict; the periods built without an RPC endpoint are never
  marked.
\<close>

theorem marketplace_classification:
  "marketplaceCheck prev (transfer, block) nxt =
     (case map_of MARKETPLACE_CONTRACTS (toLowerCase (owner_id transfer)) of
        Some label \<Rightarrow> (True, Some label)
      | None \<Rightarrow>
          if \<exists>p pb n nb b.
               prev = Some (p, Some pb) \<and> nxt = Some (n, Some nb) \<and> block = Some b \<and>
               block_number transfer - block_number p \<le> 10 \<and>
               block_number n - block_number transfer \<le> 10 \<and>
               toLowerCase (owner_id transfer) \<noteq> toLowerCase (owner_id p) \<and>
               toLowerCase (owner_id transfer) \<noteq> toLowerCase (owner_id n)
          then (True, Some ''Marketplace'') else (False, None)) \<and>
   (\<forall>ow. rpcOwner ts i = Some ow \<longrightarrow>
      (isMarketplace ow, marketplaceName ow) =
        marketplaceCheck (prevOf ts i) (ts ! i) (nextOf ts i)) \<and>
   \<not> isMarketplace (fallbackOwner regDate ts i)"
proof -
  have "marketplaceCheck prev (transfer, block) nxt =
     (case map_of MARKETPLACE_CONTRACTS (toLowerCase (owner_id transfer)) of
        Some label \<Rightarrow> (True, Some label)
      | None \<Rightarrow>
          if \<exists>p pb n nb b.
               prev = Some (p, Some pb) \<and> nxt = Some (n, Some nb) \<and> block = Some b \<and>
               block_number transfer - block_number p \<le> 10 \<and>
               block_number n - block_number transfer \<le> 10 \<and>
               toLowerCase (owner_id transfer) \<noteq> toLowerCase (owner_id p) \<and>
               toLowerCase (owner_id transfer) \<noteq> toLowerCase (owner_id n)
          then (True, Some ''Marketplace'') else (False, None))"
  proof (cases "map_of MARKETPLACE_CONTRACTS (toLowerCase (owner_id transfer))")
    case None
    then show ?thesis using marketplaceCheck_heuristic [OF None] by simp
  next
    case (Some label)
    then show ?thesis using marketplaceCheck_table [OF Some] by simp
  qed
  moreover have "\<not> isMarketplace (fallbackOwner regDate ts i)"
    by (simp add: fallbackOwner_def Let_def)
  ultimately show ?thesis using rpcOwner_marketplace by blast
qed

theorem marketplace_classification_witness:
  "rpcOwner [(transferTo ''0xa'' 100, Some 1600000000),
             (transferTo ''0xb'' 101, Some 1600000012),
             (transferTo ''0xc'' 102, Some 1600000024)] 1 =
     Some \<lparr>address = ''0xb'', startDate = 1600000012000, endDate = Some 1600000024000,
           transactionHash = ''0x0xb'', blockNumber = 101, isMarketplace = True,
           marketplaceName = Some ''Marketplace''\<rparr> \<and>
   marketplaceCheck (Some (transferTo ''0xa'' 100, Some 1600000000))
                    (transferTo ''0xb'' 101, Some 1600000012)
                    (Some (transferTo ''0xc'' 102, Some 1600000024)) =
     (True, Some ''Marketplace'') \<and>
   marketplaceCheck None (transferTo ''0x7BE8076f4ea4a4ad08075c2508e481d6c946d12b'' 7, None) None =
     (True, Some ''OpenSea Wyvern'')"
proof -
  have r: "rpcOwner [(transferTo ''0xa'' 100, Some 1600000000),
             (transferTo ''0xb'' 101, Some 1600000012),
             (transferTo ''0xc'' 102, Some 1600000024)] 1 =
     Some \<lparr>address = ''0xb'', startDate = 1600000012000, endDate = Some 1600000024000,
           transactionHash = ''0x0xb'', blockNumber = 101, isMarketplace = True,
           marketplaceName = Some ''Marketplace''\<rparr>"
    by code_simp
  have n: "prevOf [(transferTo ''0xa'' 100, Some 1600000000),
             (transferTo ''0xb'' 101, Some 1600000012),
             (transferTo ''0xc'' 102, Some (1600000024::int))] 1 =
             Some (transferTo ''0xa'' 100, Some 1600000000) \<and>
           nextOf [(transferTo ''0xa'' 100, Some 1600000000),
             (transferTo ''0xb'' 101, Some 1600000012),
             (transferTo ''0xc'' 102, Some (1600000024::int))] 1 =
             Some (transferTo ''0xc'' 102, Some 1600000024)"
    by (simp add: prevOf_def nextOf_def)
  have t: "map_of MARKETPLACE_CONTRACTS
             (toLowerCase (owner_id (transferTo ''0x7BE8076f4ea4a4ad08075c2508e481d6c946d12b'' 7))) =
           Some ''OpenSea Wyvern''"
    by code_simp
  show ?thesis
    using r n t
      marketplace_classification
        [of "Some (transferTo ''0xa'' 100, Some 1600000000)" "transferTo ''0xb'' 101"
            "Some 1600000012" "Some (transferTo ''0xc'' 102, Some 1600000024)"
            "[(transferTo ''0xa'' 100, Some 1600000000),
              (transferTo ''0xb'' 101, Some 1600000012),
              (transferTo ''0xc'' 102, Some 1600000024)]" 1]
      marketplace_classification
        [of None "transferTo ''0x7BE8076f4ea4a4ad08075c2508e481d6c946d12b'' 7" None None]
    by simp
qed





section \<open>The registration records\<close>






section \<open>The timeline\<close>

text \<open>
  C7 as the specification words it fails: two historical periods that overlap are both
  shown with their full durations.
\<close>

theorem timeline_sum_counterexample:
  "map duration
     (timeline 30 [ensOwner ''0xa'' 0 (Some 10), ensOwner ''0xb'' 5 (Some 20)]
        (Some (ensOwner ''0xc'' 25 (Some 100)))) = [10, 15, 5, 5] \<and>
   timelineSpanTotal 30
     (timeline 30 [ensOwner ''0xa'' 0 (Some 10), ensOwner ''0xb'' 5 (Some 20)]
        (Some (ensOwner ''0xc'' 25 (Some 100)))) = 30"
  by code_simp

lemma backToBack_Cons:
  "backToBack (x # rest) (e_startDate (c :: ENSOwner)) \<longleftrightarrow>
     (\<exists>e. e_endDate x = Some e \<and> e_startDate x < e \<and> e \<le> e_startDate (hd (rest @ [c])) \<and>
          backToBack rest (e_startDate c))"
  by (cases rest) (auto split: option.splits)

lemma backToBack_strict:
  "backToBack owners (e_startDate (c :: ENSOwner)) \<Longrightarrow> sorted_wrt (<) (map e_startDate (owners @ [c]))"
proof (induction owners)
  case Nil
  then show ?case by simp
next
  case (Cons x rest)
  then obtain e where e: "e_endDate x = Some e" "e_startDate x < e"
      "e \<le> e_startDate (hd (rest @ [c]))" "backToBack rest (e_startDate c)"
    unfolding backToBack_Cons by blast
  have s: "sorted_wrt (<) (map e_startDate (rest @ [c]))" using Cons.IH e(4) by simp
  obtain n ns where n: "rest @ [c] = n # ns" by (cases "rest @ [c]") auto
  have "\<forall>y\<in>set (n # ns). e_startDate n \<le> e_startDate y"
    using s unfolding n by auto
  then have "\<forall>y\<in>set (rest @ [c]). e_startDate x < e_startDate y"
    using e(2,3) unfolding n by fastforce
  then show ?case using s by simp
qed

lemma backToBack_starts:
  "backToBack owners (e_startDate (c :: ENSOwner)) \<Longrightarrow> ow \<in> set owners \<Longrightarrow> e_startDate ow < e_startDate c"
  using backToBack_strict [of owners c]
  by (auto simp: sorted_wrt_append)

lemma allOwners_backToBack:
  assumes "backToBack owners (e_startDate c)"
  shows "allOwners owners (Some c) = owners @ [c]"
proof -
  have "\<not> list_ex (\<lambda>ow. sameOwnerAndStart ow c) owners"
    using backToBack_starts [OF assms]
    by (fastforce simp: list_ex_iff sameOwnerAndStart_def)
  then show ?thesis by (simp add: allOwners_def)
qed

lemma deduplicatedOwners_distinct:
  "distinct (map e_startDate xs) \<Longrightarrow> \<forall>x\<in>set xs. \<forall>k\<in>seen. snd k \<noteq> e_startDate x \<Longrightarrow>
   deduplicatedOwners seen xs = xs"
proof (induction xs arbitrary: seen)
  case Nil
  then show ?case by simp
next
  case (Cons x xs)
  have "(toLowerCase (e_address x), e_startDate x) \<notin> seen" using Cons.prems(2) by fastforce
  moreover have "deduplicatedOwners (insert (toLowerCase (e_address x), e_startDate x) seen) xs = xs"
    using Cons.prems by (intro Cons.IH) auto
  ultimately show ?case by (simp add: Let_def)
qed

lemma finalOwners_backToBack:
  assumes "backToBack owners (e_startDate c)"
  shows "finalOwners owners (Some c) = owners @ [c]"
proof -
  have s: "sorted_wrt (<) (map e_startDate (owners @ [c]))"
    using assms by (rule backToBack_strict)
  then have "sorted (map e_startDate (owners @ [c]))" and d: "distinct (map e_startDate (owners @ [c]))"
    using strict_sorted_iff by blast+
  then have "sort_key e_startDate (owners @ [c]) = owners @ [c]"
    by (simp add: sort_key_id_if_sorted)
  moreover have "deduplicatedOwners {} (owners @ [c]) = owners @ [c]"
    using d by (intro deduplicatedOwners_distinct) auto
  ultimately show ?thesis
    by (simp add: finalOwners_def allOwners_backToBack [OF assms])
qed

lemma buildPeriods_backToBack:
  assumes "backToBack owners (e_startDate c)" and "e_startDate c < nw"
  shows "sum_list (map duration (buildPeriods nw (Some c) (owners @ [c]))) =
           nw - e_startDate (hd (owners @ [c])) \<and>
         (\<forall>p\<in>set (buildPeriods nw (Some c) (owners @ [c])).
            e_startDate (hd (owners @ [c])) \<le> p_startDate p) \<and>
         (\<exists>p\<in>set (buildPeriods nw (Some c) (owners @ [c])).
            p_startDate p = e_startDate (hd (owners @ [c])))"
  using assms
proof (induction owners)
  case Nil
  have "isCurrentOwner (Some c) c" by (simp add: isCurrentOwner_def sameOwnerAndStart_def)
  then have "periodDuration nw (Some c) c = nw - e_startDate c" by (simp add: periodDuration_def)
  then show ?case using Nil by (simp add: ownerPeriod_def)
next
  case (Cons x rest)
  then obtain e where e: "e_endDate x = Some e" "e_startDate x < e"
      "e \<le> e_startDate (hd (rest @ [c]))" "backToBack rest (e_startDate c)"
    unfolding backToBack_Cons by blast
  obtain n ns where n: "rest @ [c] = n # ns" by (cases "rest @ [c]") auto
  define ps where "ps = buildPeriods nw (Some c) (n # ns)"
  have ih: "sum_list (map duration ps) = nw - e_startDate n"
      "\<forall>p\<in>set ps. e_startDate n \<le> p_startDate p"
    using Cons.IH [OF e(4) Cons.prems(2)] unfolding n ps_def by simp_all
  have "e_startDate x < e_startDate c"
    using backToBack_starts [OF Cons.prems(1), of x] by simp
  then have nc: "\<not> isCurrentOwner (Some c) x"
    by (simp add: isCurrentOwner_def sameOwnerAndStart_def)
  have pe: "periodEnd (Some c) x = Some e" using e(1) by (simp add: periodEnd_def)
  have pd: "periodDuration nw (Some c) x = e - e_startDate x"
    using nc pe by (simp add: periodDuration_def)
  have en: "e \<le> e_startDate n" using e(3) unfolding n by simp
  have "buildPeriods nw (Some c) (x # n # ns) =
      ownerPeriod nw (Some c) x #
      (if e_startDate n > e then [dormantPeriod e (e_startDate n)] else []) @
      buildPeriods nw (Some c) (n # ns)"
    using pd pe e(2) buildPeriods.simps(2) [of nw "Some c" x "n # ns"]
    by (simp add: Let_def del: buildPeriods.simps)
  then have b: "buildPeriods nw (Some c) (x # n # ns) =
      ownerPeriod nw (Some c) x #
      (if e_startDate n > e then [dormantPeriod e (e_startDate n)] else []) @ ps"
    by (simp only: ps_def)
  have "sum_list (map duration (buildPeriods nw (Some c) (x # n # ns))) = nw - e_startDate x"
    unfolding b using ih(1) pd en by (simp add: ownerPeriod_def dormantPeriod_def)
  moreover have "\<forall>p\<in>set (buildPeriods nw (Some c) (x # n # ns)). e_startDate x \<le> p_startDate p"
    unfolding b using ih(2) en e(2) by (auto simp: ownerPeriod_def dormantPeriod_def)
  moreover have "\<exists>p\<in>set (buildPeriods nw (Some c) (x # n # ns)). p_startDate p = e_startDate x"
    unfolding b by (simp add: ownerPeriod_def)
  ultimately show ?case using n by simp
qed

text \<open>
  C7, as the code has it. When the historical periods are closed, each with a positive
  duration, in chronological order without overlap (each ends no later than the next
  starts, the last no later than the current period starts), and the current period
  starts before now, the durations of the timeline, dormant gaps included, add up to now
  minus the earliest start: the total span that \<open>timelineSpan\<close> computes.
\<close>

theorem timeline_durations_sum:
  assumes "backToBack owners (e_startDate c)" and "e_startDate c < nw"
  shows "sum_list (map duration (timeline nw owners (Some c))) =
           timelineSpanTotal nw (timeline nw owners (Some c)) \<and>
         timelineSpanTotal nw (timeline nw owners (Some c)) =
           nw - e_startDate (hd (owners @ [c]))"
proof -
  let ?ps = "buildPeriods nw (Some c) (owners @ [c])"
  have t: "timeline nw owners (Some c) = ?ps"
    by (simp add: timeline_def finalOwners_backToBack [OF assms(1)])
  have b: "sum_list (map duration ?ps) = nw - e_startDate (hd (owners @ [c]))"
      "\<forall>p\<in>set ?ps. e_startDate (hd (owners @ [c])) \<le> p_startDate p"
      "\<exists>p\<in>set ?ps. p_startDate p = e_startDate (hd (owners @ [c]))"
    using buildPeriods_backToBack [OF assms] by blast+
  have ne: "?ps \<noteq> []" using b(3) by auto
  have "Min (set (map p_startDate ?ps)) = e_startDate (hd (owners @ [c]))"
    using b(2,3) by (intro Min_eqI) (auto intro: rev_image_eqI)
  then have "timelineSpanTotal nw ?ps = nw - e_startDate (hd (owners @ [c]))"
    using ne by (simp add: timelineSpanTotal_def)
  then show ?thesis using b(1) t by simp
qed

theorem timeline_durations_sum_witness:
  "backToBack [ensOwner ''0xa'' 0 (Some 10), ensOwner ''0xb'' 12 (Some 20)]
     (e_startDate (ensOwner ''0xc'' 25 (Some 100))) \<and>
   e_startDate (ensOwner ''0xc'' 25 (Some 100)) < 30 \<and>
   map duration
     (timeline 30 [ensOwner ''0xa'' 0 (Some 10), ensOwner ''0xb'' 12 (Some 20)]
        (Some (ensOwner ''0xc'' 25 (Some 100)))) = [10, 2, 8, 5, 5] \<and>
   sum_list (map duration
     (timeline 30 [ensOwner ''0xa'' 0 (Some 10), ensOwner ''0xb'' 12 (Some 20)]
        (Some (ensOwner ''0xc'' 25 (Some 100))))) = 30 - 0"
proof -
  have h1: "backToBack [ensOwner ''0xa'' 0 (Some 10), ensOwner ''0xb'' 12 (Some 20)]
     (e_startDate (ensOwner ''0xc'' 25 (Some 100)))"
    by (simp add: ensOwner_def)
  have h2: "e_startDate (ensOwner ''0xc'' 25 (Some 100)) < 30" by (simp add: ensOwner_def)
  have v: "map duration
     (timeline 30 [ensOwner ''0xa'' 0 (Some 10), ensOwner ''0xb'' 12 (Some 20)]
        (Some (ensOwner ''0xc'' 25 (Some 100)))) = [10, 2, 8, 5, 5]"
    by code_simp
  have s: "sum_list (map duration
     (timeline 30 [ensOwner ''0xa'' 0 (Some 10), ensOwner ''0xb'' 12 (Some 20)]
        (Some (ensOwner ''0xc'' 25 (Some 100))))) =
     30 - e_startDate (hd ([ensOwner ''0xa'' 0 (Some 10), ensOwner ''0xb'' 12 (Some 20)] @
                            [ensOwner ''0xc'' 25 (Some 100)]))"
    using timeline_durations_sum [OF h1 h2] by simp
  have "e_startDate (hd ([ensOwner ''0xa'' 0 (Some 10), ensOwner ''0xb'' 12 (Some 20)] @
                            [ensOwner ''0xc'' 25 (Some 100)])) = 0"
    by (simp add: ensOwner_def)
  then show ?thesis using h1 h2 v s by simp
qed

section \<open>The periods of the history route\<close>









lemma ensureEndDates_starts: "map startDate (ensureEndDates cs xs) = map startDate xs"
  by (induction cs xs rule: ensureEndDates.induct) (auto split: option.splits)
























section \<open>The leaderboard\<close>
















end
